theory Spec2Isabelle
  imports Complex_Main
begin

section \<open>Selection state (state.js)\<close>

text \<open>
  The state object of \<^verbatim>\<open>createState\<close>. A JavaScript \<^verbatim>\<open>Set\<close> of indices is a
  set of naturals (\<^verbatim>\<open>has\<close> is membership, \<^verbatim>\<open>size === 0\<close> is emptiness), a slot that
  holds \<^verbatim>\<open>null\<close> or a value is an option, and every mutation returns the updated
  record. The constant \<^verbatim>\<open>ringNames\<close> field is the table \<open>RING_NAMES\<close> below.
\<close>

datatype selection_mode = ModeMonth | ModeRing | ModePeriod

record segment_filters =
  verksamhet :: bool
  ekonomi :: bool
  kvalitet :: bool

record create_options =
  hasVerksamhet :: "bool option"
  hasEkonomi :: "bool option"
  hasKvalitet :: "bool option"

record state =
  segmentFilters :: segment_filters
  clickedMonths :: "nat set"
  hoveredMonth :: "nat option"
  clickedRings :: "nat set"
  hoveredRing :: "nat option"
  clickedPeriods :: "nat set"
  hoveredPeriod :: "nat option"
  hoveredEvent :: "string option"
  clickedEvent :: "string option"
  clickedEventPhase :: int
  selectionMode :: "selection_mode option"
  hoverCycleTimeouts :: "nat list"
  currentHoverPhase :: int

text \<open>The operator \<^verbatim>\<open>a ?? b\<close> on a value that may be missing.\<close>

definition nullish :: "'a option \<Rightarrow> 'a \<Rightarrow> 'a" where
  "nullish v d = (case v of None \<Rightarrow> d | Some x \<Rightarrow> x)"

definition createState :: "create_options \<Rightarrow> state" where
  "createState options =
     \<lparr> segmentFilters =
         \<lparr> verksamhet = nullish (hasVerksamhet options) True,
           ekonomi = nullish (hasEkonomi options) True,
           kvalitet = nullish (hasKvalitet options) True \<rparr>,
       clickedMonths = {},
       hoveredMonth = None,
       clickedRings = {},
       hoveredRing = None,
       clickedPeriods = {},
       hoveredPeriod = None,
       hoveredEvent = None,
       clickedEvent = None,
       clickedEventPhase = 0,
       selectionMode = None,
       hoverCycleTimeouts = [],
       currentHoverPhase = 0 \<rparr>"

definition clearHoverCycle :: "state \<Rightarrow> state" where
  "clearHoverCycle st = st\<lparr> hoverCycleTimeouts := [], currentHoverPhase := 0 \<rparr>"

definition resetSelections :: "state \<Rightarrow> state" where
  "resetSelections st =
     clearHoverCycle
       (st\<lparr> clickedMonths := {},
            clickedRings := {},
            clickedPeriods := {},
            selectionMode := None,
            clickedEvent := None,
            clickedEventPhase := 0 \<rparr>)"

text \<open>The \<^verbatim>\<open>has\<close>/\<^verbatim>\<open>delete\<close>/\<^verbatim>\<open>add\<close> branch shared by the three toggles.\<close>

definition toggleMember :: "nat \<Rightarrow> nat set \<Rightarrow> nat set" where
  "toggleMember i s = (if i \<in> s then s - {i} else insert i s)"

definition toggleMonth :: "state \<Rightarrow> nat \<Rightarrow> state" where
  "toggleMonth st monthIndex =
     (let st1 = st\<lparr> clickedRings := {} \<rparr>;
          st2 = st1\<lparr> clickedPeriods := {} \<rparr>;
          st3 = st2\<lparr> selectionMode := Some ModeMonth \<rparr>;
          st4 = st3\<lparr> clickedMonths := toggleMember monthIndex (clickedMonths st3) \<rparr>
      in if clickedMonths st4 = {} then st4\<lparr> selectionMode := None \<rparr> else st4)"

definition toggleRing :: "state \<Rightarrow> nat \<Rightarrow> state" where
  "toggleRing st ringIndex =
     (let st1 = st\<lparr> clickedMonths := {} \<rparr>;
          st2 = st1\<lparr> clickedPeriods := {} \<rparr>;
          st3 = st2\<lparr> selectionMode := Some ModeRing \<rparr>;
          st4 = st3\<lparr> clickedRings := toggleMember ringIndex (clickedRings st3) \<rparr>
      in if clickedRings st4 = {} then st4\<lparr> selectionMode := None \<rparr> else st4)"

definition togglePeriod :: "state \<Rightarrow> nat \<Rightarrow> state" where
  "togglePeriod st periodIndex =
     (let st1 = st\<lparr> clickedMonths := {} \<rparr>;
          st2 = st1\<lparr> clickedRings := {} \<rparr>;
          st3 = st2\<lparr> selectionMode := Some ModePeriod \<rparr>;
          st4 = st3\<lparr> clickedPeriods := toggleMember periodIndex (clickedPeriods st3) \<rparr>
      in if clickedPeriods st4 = {} then st4\<lparr> selectionMode := None \<rparr> else st4)"

text \<open>
  Sequences of the four selection operations: one constructor per mutator, run from
  left to right in the order the host delivers the interactions.
\<close>

datatype selection_op =
    ToggleMonth nat
  | ToggleRing nat
  | TogglePeriod nat
  | ResetSelections

fun applyOp :: "state \<Rightarrow> selection_op \<Rightarrow> state" where
  "applyOp st (ToggleMonth i) = toggleMonth st i"
| "applyOp st (ToggleRing i) = toggleRing st i"
| "applyOp st (TogglePeriod i) = togglePeriod st i"
| "applyOp st ResetSelections = resetSelections st"

definition runOps :: "state \<Rightarrow> selection_op list \<Rightarrow> state" where
  "runOps st ops = foldl applyOp st ops"

text \<open>The three click-sets of a state, and how many of them are non-empty.\<close>

definition nonEmptyAxes :: "state \<Rightarrow> selection_mode set" where
  "nonEmptyAxes st =
     (if clickedMonths st = {} then {} else {ModeMonth}) \<union>
     (if clickedRings st = {} then {} else {ModeRing}) \<union>
     (if clickedPeriods st = {} then {} else {ModePeriod})"

section \<open>Configuration tables and events (config.js)\<close>

text \<open>Reading an array at an index: \<^verbatim>\<open>undefined\<close> outside the array.\<close>

definition arrayAt :: "'a list \<Rightarrow> nat \<Rightarrow> 'a option" where
  "arrayAt xs i = (if i < length xs then Some (xs ! i) else None)"

definition RING_NAMES :: "string list" where
  "RING_NAMES =
     [''langtidsplanering'', ''planering'', ''genomforande_och_uppfoljning'',
      ''uppfoljning_och_analys'']"

definition RING_MAP :: "string \<rightharpoonup> int" where
  "RING_MAP =
     [''langtidsplanering'' \<mapsto> 0,
      ''planering'' \<mapsto> 1,
      ''genomforande_och_uppfoljning'' \<mapsto> 2,
      ''uppfoljning_och_analys'' \<mapsto> 3,
      ''manad'' \<mapsto> 4]"

text \<open>
  A value read from the data document, as far as the code inspects it: the facet
  flags are compared with \<^verbatim>\<open>=== true\<close>, so anything but the boolean \<^verbatim>\<open>true\<close>
  counts as not set.
\<close>

datatype jsval = JUndefined | JNull | JBool bool | JNum int | JStr string

definition isExactlyTrue :: "jsval \<Rightarrow> bool" where
  "isExactlyTrue v = (v = JBool True)"

text \<open>
  The \<^verbatim>\<open>ring\<close> field is a ring name or already an index (the code tests
  \<^verbatim>\<open>typeof ev.ring === 'string'\<close>); \<^verbatim>\<open>ring_2\<close> may be missing, which is \<open>None\<close>.
  A \<^verbatim>\<open>Date\<close> object is kept as the calendar fields it reports: \<^verbatim>\<open>getFullYear\<close>,
  \<^verbatim>\<open>getMonth\<close> (0 to 11) and \<^verbatim>\<open>getDate\<close>.
\<close>

datatype ring_ref = RingName string | RingIndex int

record date =
  fullYear :: int
  month0 :: nat
  dayOfMonth :: nat

record event =
  ev_id :: string
  ev_date :: date
  ev_ring :: ring_ref
  ev_ring_2 :: "ring_ref option"
  ev_placering :: string
  ev_verksamhet :: jsval
  ev_ekonomi :: jsval
  ev_kvalitet :: jsval

record config =
  year :: int
  periodDividerWeeks :: "int list"

record layout =
  ringInner :: real
  ringOuter :: real
  ringCount :: real
  monthBandR0 :: real
  monthBandR1 :: real
  connectorElbowRadius :: real
  jd_connectorCurveFactor :: real
  maso_connectorCurveFactor :: real
  fman_connectorCurveFactor :: real
  jj_connectorCurveFactor :: real

text \<open>The layout \<^verbatim>\<open>getLayoutConfig\<close> returns for a configuration that sets none of these fields.\<close>

definition defaultLayout :: layout where
  "defaultLayout =
     \<lparr> ringInner = 120,
       ringOuter = 380,
       ringCount = 4,
       monthBandR0 = 400,
       monthBandR1 = 420,
       connectorElbowRadius = 480,
       jd_connectorCurveFactor = 1,
       maso_connectorCurveFactor = 1,
       fman_connectorCurveFactor = 1,
       jj_connectorCurveFactor = 1 \<rparr>"

section \<open>Filtering by category facet (state.js)\<close>

definition matchesFilters :: "segment_filters \<Rightarrow> event \<Rightarrow> bool" where
  "matchesFilters f ev =
     (let matchVerksamhet = (verksamhet f \<and> isExactlyTrue (ev_verksamhet ev));
          matchEkonomi = (ekonomi f \<and> isExactlyTrue (ev_ekonomi ev));
          matchKvalitet = (kvalitet f \<and> isExactlyTrue (ev_kvalitet ev))
      in matchVerksamhet \<or> matchEkonomi \<or> matchKvalitet)"

definition getFilteredEvents :: "state \<Rightarrow> event list \<Rightarrow> event list" where
  "getFilteredEvents st allEvents = filter (matchesFilters (segmentFilters st)) allEvents"

section \<open>Ring radius of an event (svg-setup.js, events.js)\<close>

text \<open>
  Numbers are real numbers here: the arithmetic of the layout is modelled exactly,
  without the rounding of IEEE doubles. \<open>ringCount\<close> is a divisor; the results below
  that depend on the quotient assume it is not zero.
\<close>

definition ringGapOf :: "layout \<Rightarrow> real" where
  "ringGapOf lay = (ringOuter lay - ringInner lay) / ringCount lay"

definition ringIndexOf :: "ring_ref \<Rightarrow> int" where
  "ringIndexOf ring =
     (case ring of RingName s \<Rightarrow> nullish (RING_MAP s) 0 | RingIndex n \<Rightarrow> n)"

definition getRadius :: "ring_ref \<Rightarrow> layout \<Rightarrow> real" where
  "getRadius ring lay =
     (let ringGap = ringGapOf lay in
      if ring = RingName ''manad'' then (monthBandR0 lay + monthBandR1 lay) / 2
      else ringInner lay + of_int (ringIndexOf ring) * ringGap + ringGap / 2)"

definition ringIndex2Of :: "event \<Rightarrow> int" where
  "ringIndex2Of ev =
     (let ringIdx = ringIndexOf (ev_ring ev)
      in case ev_ring_2 ev of
           Some (RingName s) \<Rightarrow> nullish (RING_MAP s) ringIdx
         | Some (RingIndex n) \<Rightarrow> n
         | None \<Rightarrow> ringIdx)"

definition finalLineIdx :: "event \<Rightarrow> int" where
  "finalLineIdx ev =
     (let ringIdx = ringIndexOf (ev_ring ev);
          ringIdx2 = ringIndex2Of ev;
          boundaryIdx = max ringIdx ringIdx2
      in if ringIdx = ringIdx2 then ringIdx + 1 else boundaryIdx)"

text \<open>The radius \<^verbatim>\<open>r\<close> that \<^verbatim>\<open>calculateLabelPositions\<close> gives an event.\<close>

definition eventRadius :: "event \<Rightarrow> layout \<Rightarrow> real" where
  "eventRadius ev lay =
     (if ev_placering ev = ''linje''
      then (let ringGap = ringGapOf lay in ringInner lay + of_int (finalLineIdx ev) * ringGap)
      else getRadius (ev_ring ev) lay)"

text \<open>The outer edge of the ring with a given index, as \<^verbatim>\<open>renderRings\<close> draws it (\<^verbatim>\<open>r1\<close>).\<close>

definition ringOuterEdge :: "layout \<Rightarrow> int \<Rightarrow> real" where
  "ringOuterEdge lay i = ringInner lay + of_int (i + 1) * ringGapOf lay"

definition ringInnerEdge :: "layout \<Rightarrow> int \<Rightarrow> real" where
  "ringInnerEdge lay i = ringInner lay + of_int i * ringGapOf lay"

section \<open>Label columns and connector elbows (events.js)\<close>

text \<open>
  A label item of \<^verbatim>\<open>calculateLabelPositions\<close>: the event together with its derived
  angle \<^verbatim>\<open>a\<close>, marker position \<^verbatim>\<open>x\<close>, \<^verbatim>\<open>y\<close>, label position \<^verbatim>\<open>lx\<close>, \<^verbatim>\<open>ly\<close> and side.
\<close>

record label =
  lbl_event :: event
  lbl_a :: real
  lbl_r :: real
  lbl_x :: real
  lbl_y :: real
  lbl_lx :: real
  lbl_ly :: real
  lbl_isLeft :: bool
  lbl_dateObj :: date

text \<open>
  \<^verbatim>\<open>distributeEvenly\<close> writes \<^verbatim>\<open>ly\<close> into every item of the array in place, in array
  order; the model returns the array of updated items.
\<close>

definition distributeEvenly :: "label list \<Rightarrow> real \<Rightarrow> label list" where
  "distributeEvenly subset' spacing =
     (if length subset' = 0 then subset'
      else
        (let totalHeight = (real (length subset') - 1) * spacing;
             startY = - totalHeight / 2
         in map (\<lambda>(i, item). item\<lparr> lbl_ly := startY + real i * spacing \<rparr>)
              (enumerate 0 subset')))"

text \<open>\<^verbatim>\<open>Math.atan2(y, x)\<close>, the angle of the point \<open>(x, y)\<close> in \<open>(-\<pi>, \<pi>]\<close>.\<close>

definition atan2 :: "real \<Rightarrow> real \<Rightarrow> real" where
  "atan2 y x =
     (if 0 < x then arctan (y / x)
      else if x < 0 \<and> 0 \<le> y then arctan (y / x) + pi
      else if x < 0 \<and> y < 0 then arctan (y / x) - pi
      else if 0 < y then pi / 2
      else if y < 0 then - pi / 2
      else 0)"

text \<open>The two \<^verbatim>\<open>while\<close> loops that bring the angle difference into \<open>[-\<pi>, \<pi>]\<close>.\<close>

function normalizeDown :: "real \<Rightarrow> real" where
  "normalizeDown angleDiff =
     (if angleDiff > pi then normalizeDown (angleDiff - 2 * pi) else angleDiff)"
  by pat_completeness auto
termination
proof (relation "measure (\<lambda>x. nat \<lceil>x / (2 * pi)\<rceil>)")
  show "wf (measure (\<lambda>x. nat \<lceil>x / (2 * pi)\<rceil>))"
    by simp
next
  fix angleDiff :: real
  assume gt: "pi < angleDiff"
  have eq: "(angleDiff - 2 * pi) / (2 * pi) = angleDiff / (2 * pi) - 1"
    by (simp add: diff_divide_distrib)
  have "0 < angleDiff"
    using gt pi_gt_zero by linarith
  then have "0 < angleDiff / (2 * pi)"
    by simp
  then have "0 < \<lceil>angleDiff / (2 * pi)\<rceil>"
    by linarith
  then have "nat (\<lceil>angleDiff / (2 * pi)\<rceil> - 1) < nat \<lceil>angleDiff / (2 * pi)\<rceil>"
    by linarith
  then have "nat \<lceil>angleDiff / (2 * pi) - 1\<rceil> < nat \<lceil>angleDiff / (2 * pi)\<rceil>"
    by (simp only: ceiling_diff_one)
  then have "nat \<lceil>(angleDiff - 2 * pi) / (2 * pi)\<rceil> < nat \<lceil>angleDiff / (2 * pi)\<rceil>"
    by (simp only: eq)
  then show "(angleDiff - 2 * pi, angleDiff) \<in> measure (\<lambda>x. nat \<lceil>x / (2 * pi)\<rceil>)"
    by (simp only: in_measure)
qed

function normalizeUp :: "real \<Rightarrow> real" where
  "normalizeUp angleDiff =
     (if angleDiff < - pi then normalizeUp (angleDiff + 2 * pi) else angleDiff)"
  by pat_completeness auto
termination
proof (relation "measure (\<lambda>x. nat \<lceil>- x / (2 * pi)\<rceil>)")
  show "wf (measure (\<lambda>x. nat \<lceil>- x / (2 * pi)\<rceil>))"
    by simp
next
  fix angleDiff :: real
  assume lt: "angleDiff < - pi"
  have eq: "- (angleDiff + 2 * pi) / (2 * pi) = - angleDiff / (2 * pi) - 1"
    by (simp add: field_simps)
  have "0 < - angleDiff"
    using lt pi_gt_zero by linarith
  moreover have "0 < 2 * pi"
    by simp
  ultimately have "0 < - angleDiff / (2 * pi)"
    by (rule divide_pos_pos)
  then have "0 < \<lceil>- angleDiff / (2 * pi)\<rceil>"
    by linarith
  then have "nat (\<lceil>- angleDiff / (2 * pi)\<rceil> - 1) < nat \<lceil>- angleDiff / (2 * pi)\<rceil>"
    by linarith
  then have "nat \<lceil>- angleDiff / (2 * pi) - 1\<rceil> < nat \<lceil>- angleDiff / (2 * pi)\<rceil>"
    by (simp only: ceiling_diff_one)
  then have "nat \<lceil>- (angleDiff + 2 * pi) / (2 * pi)\<rceil> < nat \<lceil>- angleDiff / (2 * pi)\<rceil>"
    by (simp only: eq)
  then show "(angleDiff + 2 * pi, angleDiff) \<in> measure (\<lambda>x. nat \<lceil>- x / (2 * pi)\<rceil>)"
    by (simp only: in_measure)
qed

definition curveFactorOf :: "nat \<Rightarrow> layout \<Rightarrow> real" where
  "curveFactorOf eventMonth lay =
     (if eventMonth \<in> set [0, 11] then jd_connectorCurveFactor lay
      else if eventMonth \<in> set [2, 3, 8, 9] then maso_connectorCurveFactor lay
      else if eventMonth \<in> set [1, 4, 7, 10] then fman_connectorCurveFactor lay
      else jj_connectorCurveFactor lay)"

text \<open>The first of \<^verbatim>\<open>[t1, t2]\<close> strictly between 0 and 1, else the one nearer to 0.5.\<close>

definition bestTOf :: "real \<Rightarrow> real \<Rightarrow> real" where
  "bestTOf t1 t2 =
     (case find (\<lambda>t. 0 < t \<and> t < 1) [t1, t2] of
        Some t \<Rightarrow> t
      | None \<Rightarrow> (if \<bar>t1 - 0.5\<bar> < \<bar>t2 - 0.5\<bar> then t1 else t2))"

text \<open>The coefficients of the quadratic for the line from the marker to the label.\<close>

definition elbow_a_coef :: "label \<Rightarrow> real \<Rightarrow> real \<Rightarrow> real" where
  "elbow_a_coef ev lineEndX lineEndY =
     (let dx = lineEndX - lbl_x ev; dy = lineEndY - lbl_y ev in dx * dx + dy * dy)"

definition elbow_discriminant :: "label \<Rightarrow> real \<Rightarrow> real \<Rightarrow> layout \<Rightarrow> real" where
  "elbow_discriminant ev lineEndX lineEndY lay =
     (let dx = lineEndX - lbl_x ev;
          dy = lineEndY - lbl_y ev;
          a_coef = dx * dx + dy * dy;
          b_coef = 2 * (lbl_x ev * dx + lbl_y ev * dy);
          c_coef = lbl_x ev * lbl_x ev + lbl_y ev * lbl_y ev
                   - connectorElbowRadius lay * connectorElbowRadius lay
      in b_coef * b_coef - 4 * a_coef * c_coef)"

definition straightLineAngleOf :: "label \<Rightarrow> real \<Rightarrow> real \<Rightarrow> layout \<Rightarrow> real" where
  "straightLineAngleOf ev lineEndX lineEndY lay =
     (let currentElbowAngle = lbl_a ev;
          dx = lineEndX - lbl_x ev;
          dy = lineEndY - lbl_y ev;
          a_coef = dx * dx + dy * dy;
          b_coef = 2 * (lbl_x ev * dx + lbl_y ev * dy);
          c_coef = lbl_x ev * lbl_x ev + lbl_y ev * lbl_y ev
                   - connectorElbowRadius lay * connectorElbowRadius lay;
          discriminant = b_coef * b_coef - 4 * a_coef * c_coef
      in if discriminant \<ge> 0 \<and> a_coef \<noteq> 0 then
           (let sqrtDisc = sqrt discriminant;
                t1 = (- b_coef - sqrtDisc) / (2 * a_coef);
                t2 = (- b_coef + sqrtDisc) / (2 * a_coef);
                bestT = bestTOf t1 t2;
                intersectX = lbl_x ev + bestT * dx;
                intersectY = lbl_y ev + bestT * dy
            in atan2 intersectY intersectX)
         else currentElbowAngle)"

definition interpolatedAngleOf :: "label \<Rightarrow> real \<Rightarrow> real \<Rightarrow> layout \<Rightarrow> real" where
  "interpolatedAngleOf ev lineEndX lineEndY lay =
     (let connectorCurveFactor = curveFactorOf (month0 (lbl_dateObj ev)) lay;
          currentElbowAngle = lbl_a ev;
          straightLineAngle = straightLineAngleOf ev lineEndX lineEndY lay;
          angleDiff = normalizeUp (normalizeDown (currentElbowAngle - straightLineAngle))
      in straightLineAngle + angleDiff * connectorCurveFactor)"

text \<open>The result \<^verbatim>\<open>{elbowX, elbowY}\<close> as a pair.\<close>

definition calculateElbow :: "label \<Rightarrow> real \<Rightarrow> real \<Rightarrow> layout \<Rightarrow> real \<times> real" where
  "calculateElbow ev lineEndX lineEndY lay =
     (let interpolatedAngle = interpolatedAngleOf ev lineEndX lineEndY lay
      in (connectorElbowRadius lay * cos interpolatedAngle,
          connectorElbowRadius lay * sin interpolatedAngle))"

section \<open>Calendar and ISO weeks (utils.js, rings.js)\<close>

text \<open>
  The built-in \<^verbatim>\<open>Date\<close> arithmetic the code relies on, in the proleptic Gregorian
  calendar: the number of days from 1970-01-01 to a date (months counted from 1 here),
  the year a day number falls in, and \<^verbatim>\<open>getDay\<close> with Sunday as 0.
\<close>

definition isLeapYear :: "int \<Rightarrow> bool" where
  "isLeapYear y = ((y mod 4 = 0 \<and> y mod 100 \<noteq> 0) \<or> y mod 400 = 0)"

definition daysFromCivil :: "int \<Rightarrow> int \<Rightarrow> int \<Rightarrow> int" where
  "daysFromCivil y m d =
     (let y1 = (if m \<le> 2 then y - 1 else y);
          era = y1 div 400;
          yoe = y1 - era * 400;
          doy = (153 * (if m > 2 then m - 3 else m + 9) + 2) div 5 + d - 1;
          doe = yoe * 365 + yoe div 4 - yoe div 100 + doy
      in era * 146097 + doe - 719468)"

definition yearOfDays :: "int \<Rightarrow> int" where
  "yearOfDays z =
     (let z1 = z + 719468;
          era = z1 div 146097;
          doe = z1 - era * 146097;
          yoe = (doe - doe div 1460 + doe div 36524 - doe div 146096) div 365;
          doy = doe - (365 * yoe + yoe div 4 - yoe div 100);
          mp = (5 * doy + 2) div 153
      in if mp < 10 then yoe + era * 400 else yoe + era * 400 + 1)"

definition getDay :: "int \<Rightarrow> int" where
  "getDay z = (z + 4) mod 7"

definition dayNumberOf :: "date \<Rightarrow> int" where
  "dayNumberOf d = daysFromCivil (fullYear d) (int (month0 d) + 1) (int (dayOfMonth d))"

text \<open>\<^verbatim>\<open>getWeekNumber\<close>: the ISO week of a date; \<^verbatim>\<open>Math.ceil(n / 7)\<close> is \<open>- (- n div 7)\<close>.\<close>

definition getWeekNumber :: "date \<Rightarrow> int" where
  "getWeekNumber dt =
     (let d = dayNumberOf dt;
          dayNum = (if getDay d = 0 then 7 else getDay d);
          d1 = d + 4 - dayNum;
          yearStart = daysFromCivil (yearOfDays d1) 1 1
      in - ((- (d1 - yearStart + 1)) div 7))"

text \<open>The week count of \<^verbatim>\<open>renderWeekRing\<close> (rings.js).\<close>

definition weekRingTotalWeeks :: "int \<Rightarrow> int" where
  "weekRingTotalWeeks yr = (if yr = 2026 then 53 else 52)"

text \<open>
  The spec's rule for a year of 53 ISO weeks, in its words: 1 January is a Thursday, or
  the year is a leap year and 1 January is a Wednesday.
\<close>

definition spec_spans53IsoWeeks :: "int \<Rightarrow> bool" where
  "spec_spans53IsoWeeks yr =
     (getDay (daysFromCivil yr 1 1) = 4 \<or>
      (isLeapYear yr \<and> getDay (daysFromCivil yr 1 1) = 3))"

section \<open>Periods and their weeks (main.js)\<close>

text \<open>
  Divider weeks read out of range are \<^verbatim>\<open>undefined\<close>, and every comparison of a number
  with \<^verbatim>\<open>undefined\<close> is false. With no dividers the index \<^verbatim>\<open>(idx + 1) % 0\<close> is
  \<^verbatim>\<open>NaN\<close>, which reads \<^verbatim>\<open>undefined\<close> as well.
\<close>

definition numGe :: "int \<Rightarrow> int option \<Rightarrow> bool" where
  "numGe w v = (case v of None \<Rightarrow> False | Some x \<Rightarrow> w \<ge> x)"

definition numLt :: "int \<Rightarrow> int option \<Rightarrow> bool" where
  "numLt w v = (case v of None \<Rightarrow> False | Some x \<Rightarrow> w < x)"

definition optLe :: "int option \<Rightarrow> int option \<Rightarrow> bool" where
  "optLe a b = (case a of None \<Rightarrow> False | Some x \<Rightarrow> (case b of None \<Rightarrow> False | Some y \<Rightarrow> x \<le> y))"

definition activeWeeksTotalWeeks :: "config \<Rightarrow> int" where
  "activeWeeksTotalWeeks cfg = (if year cfg = 2026 then 53 else 52)"

definition periodStartWeek :: "config \<Rightarrow> nat \<Rightarrow> int option" where
  "periodStartWeek cfg idx = arrayAt (periodDividerWeeks cfg) idx"

definition periodEndWeek :: "config \<Rightarrow> nat \<Rightarrow> int option" where
  "periodEndWeek cfg idx =
     (let dividers = periodDividerWeeks cfg;
          numPeriods = length dividers
      in if numPeriods = 0 then None else arrayAt dividers ((idx + 1) mod numPeriods))"

definition periodWraps :: "config \<Rightarrow> nat \<Rightarrow> bool" where
  "periodWraps cfg idx = optLe (periodEndWeek cfg idx) (periodStartWeek cfg idx)"

text \<open>The weeks one period index adds: the body of the \<^verbatim>\<open>forEach\<close> callback.\<close>

definition weeksOfPeriod :: "config \<Rightarrow> nat \<Rightarrow> int list" where
  "weeksOfPeriod cfg idx =
     (let totalWeeks = activeWeeksTotalWeeks cfg;
          sw = periodStartWeek cfg idx;
          ew = periodEndWeek cfg idx;
          wraps = optLe ew sw
      in filter
           (\<lambda>w. if wraps then numGe w sw \<or> numLt w ew else numGe w sw \<and> numLt w ew)
           [1..totalWeeks])"

definition getActiveWeeksFromPeriods :: "nat set \<Rightarrow> config \<Rightarrow> int set" where
  "getActiveWeeksFromPeriods activePeriodIndices cfg =
     (\<Union>idx \<in> activePeriodIndices. set (weeksOfPeriod cfg idx))"

section \<open>Derived activation (state.js, main.js)\<close>

record active_sets =
  activeMonths :: "nat set"
  activeRings :: "nat set"
  activePeriods :: "nat set"
  hasMonthActive :: bool
  hasRingActive :: bool
  hasPeriodActive :: bool
  hasAnyActive :: bool

definition withHovered :: "nat set \<Rightarrow> nat option \<Rightarrow> nat set" where
  "withHovered clicked hovered = (case hovered of None \<Rightarrow> clicked | Some h \<Rightarrow> insert h clicked)"

definition getActiveSets :: "state \<Rightarrow> active_sets" where
  "getActiveSets st =
     (let activeMonths = withHovered (clickedMonths st) (hoveredMonth st);
          activeRings = withHovered (clickedRings st) (hoveredRing st);
          activePeriods = withHovered (clickedPeriods st) (hoveredPeriod st)
      in \<lparr> activeMonths = activeMonths,
           activeRings = activeRings,
           activePeriods = activePeriods,
           hasMonthActive = (activeMonths \<noteq> {}),
           hasRingActive = (activeRings \<noteq> {}),
           hasPeriodActive = (activePeriods \<noteq> {}),
           hasAnyActive = (activeMonths \<noteq> {} \<or> activeRings \<noteq> {} \<or> activePeriods \<noteq> {}) \<rparr>)"

text \<open>
  \<^verbatim>\<open>refreshHighlights\<close> sets two classes on every element; the model returns them per
  element kind. A period segment gets no \<^verbatim>\<open>is-active\<close> class (its stroke width shows
  \<^verbatim>\<open>isActive\<close> instead), so \<open>is_active\<close> is that local variable there.
\<close>

record highlight =
  is_active :: bool
  is_dimmed :: bool

definition monthArcHighlight :: "state \<Rightarrow> nat \<Rightarrow> highlight" where
  "monthArcHighlight st m =
     (let s = getActiveSets st;
          isActive = (hasMonthActive s \<and> m \<in> activeMonths s)
      in \<lparr> is_active = isActive,
           is_dimmed = (hasAnyActive s \<and> \<not> isActive \<and> \<not> hasRingActive s \<and> \<not> hasPeriodActive s) \<rparr>)"

definition ringSegmentHighlight :: "state \<Rightarrow> nat \<Rightarrow> nat \<Rightarrow> highlight" where
  "ringSegmentHighlight st m r =
     (let s = getActiveSets st;
          isActive =
            (if hasRingActive s then r \<in> activeRings s
             else if hasMonthActive s then m \<in> activeMonths s
             else False)
      in \<lparr> is_active = isActive, is_dimmed = (hasAnyActive s \<and> \<not> isActive) \<rparr>)"

definition monthLabelHighlight :: "state \<Rightarrow> nat \<Rightarrow> highlight" where
  "monthLabelHighlight st m =
     (let s = getActiveSets st;
          isActive = (hasMonthActive s \<and> m \<in> activeMonths s)
      in \<lparr> is_active = isActive,
           is_dimmed = (hasAnyActive s \<and> \<not> isActive \<and> \<not> hasRingActive s \<and> \<not> hasPeriodActive s) \<rparr>)"

text \<open>
  An event group in the drawing carries \<^verbatim>\<open>data-id\<close> and \<^verbatim>\<open>data-month\<close>; its event is
  looked up in the currently filtered list and may be gone. \<^verbatim>\<open>RING_NAMES[ringIdx]\<close> is
  \<^verbatim>\<open>undefined\<close> out of range, which \<^verbatim>\<open>===\<close> equals only a missing \<^verbatim>\<open>ring_2\<close>.
\<close>

record marker =
  mk_id :: string
  mk_month :: nat

definition strictEqRing :: "ring_ref option \<Rightarrow> string option \<Rightarrow> bool" where
  "strictEqRing v ringName =
     (case v of
        None \<Rightarrow> ringName = None
      | Some (RingName s) \<Rightarrow> ringName = Some s
      | Some (RingIndex n) \<Rightarrow> False)"

definition eventOnRing :: "event \<Rightarrow> nat \<Rightarrow> bool" where
  "eventOnRing ev ringIdx =
     (let ringName = arrayAt RING_NAMES ringIdx
      in strictEqRing (Some (ev_ring ev)) ringName \<or> strictEqRing (ev_ring_2 ev) ringName)"

definition markerHighlight :: "config \<Rightarrow> event list \<Rightarrow> state \<Rightarrow> marker \<Rightarrow> highlight" where
  "markerHighlight cfg events st mk =
     (let s = getActiveSets st;
          activeWeeks = getActiveWeeksFromPeriods (activePeriods s) cfg;
          m = mk_month mk;
          ev = find (\<lambda>e. ev_id e = mk_id mk) events;
          isActive =
            (if hasRingActive s then
               (case ev of None \<Rightarrow> False
                | Some e \<Rightarrow> (\<exists>ringIdx \<in> activeRings s. eventOnRing e ringIdx))
             else if hasMonthActive s then m \<in> activeMonths s
             else if hasPeriodActive s \<and> ev \<noteq> None then
               (case ev of None \<Rightarrow> False | Some e \<Rightarrow> getWeekNumber (ev_date e) \<in> activeWeeks)
             else False);
          isDimmed = (hasAnyActive s \<and> \<not> isActive)
      in \<lparr> is_active = isActive, is_dimmed = isDimmed \<rparr>)"

definition periodSegmentHighlight :: "state \<Rightarrow> nat \<Rightarrow> highlight" where
  "periodSegmentHighlight st i =
     (let s = getActiveSets st;
          isActive = (i \<in> activePeriods s)
      in \<lparr> is_active = isActive,
           is_dimmed = (hasAnyActive s \<and> \<not> isActive \<and> \<not> hasMonthActive s \<and> \<not> hasRingActive s) \<rparr>)"

section \<open>Carousel of a clicked event (events.js)\<close>

text \<open>
  \<^verbatim>\<open>%\<close> on numbers: the remainder has the sign of the dividend. A string is falsy when
  it is empty, and so is \<^verbatim>\<open>null\<close>.
\<close>

definition jsRem :: "int \<Rightarrow> int \<Rightarrow> int" where
  "jsRem a b = (if a \<ge> 0 then a mod \<bar>b\<bar> else - ((- a) mod \<bar>b\<bar>))"

definition truthyId :: "string option \<Rightarrow> bool" where
  "truthyId v = (case v of None \<Rightarrow> False | Some s \<Rightarrow> s \<noteq> [])"

text \<open>
  A handler either returns or throws. A thrown exception is not caught by the handlers,
  and what they wrote to the state object before it stays written, so both outcomes
  carry the state.
\<close>

datatype js_error = TypeError

datatype outcome = Returns state | Throws js_error state

fun stateOf :: "outcome \<Rightarrow> state" where
  "stateOf (Returns st) = st"
| "stateOf (Throws e st) = st"

fun hasThrown :: "outcome \<Rightarrow> bool" where
  "hasThrown (Returns st) = False"
| "hasThrown (Throws e st) = True"

text \<open>
  The object handed to the carousel is either a label item, which
  \<^verbatim>\<open>calculateLabelPositions\<close> gave a \<^verbatim>\<open>dateObj\<close>, or a record of \<^verbatim>\<open>allVisibleEvents\<close> as
  loaded from the data document, which has a \<^verbatim>\<open>date\<close> but no \<^verbatim>\<open>dateObj\<close>.
\<close>

datatype carousel_arg = LabelItem label | RawEvent event

fun dateObjOf :: "carousel_arg \<Rightarrow> date option" where
  "dateObjOf (LabelItem item) = Some (lbl_dateObj item)"
| "dateObjOf (RawEvent ev) = None"

text \<open>
  \<^verbatim>\<open>getInitialContent\<close> starts with \<^verbatim>\<open>ev.dateObj.toLocaleDateString(...)\<close>, a TypeError
  when \<^verbatim>\<open>dateObj\<close> is \<^verbatim>\<open>undefined\<close>. Its lines are built from the date, which stands
  for them here; the description and responsible-party generators read only text
  fields and always return.
\<close>

definition getInitialContent :: "carousel_arg \<Rightarrow> js_error + date" where
  "getInitialContent ev = (case dateObjOf ev of None \<Rightarrow> Inl TypeError | Some d \<Rightarrow> Inr d)"

text \<open>
  \<^verbatim>\<open>updateCarouselContent\<close> clears the hover cycle, then builds the content of the phase
  and shows it. For a phase other than 0, 1, 2 no \<^verbatim>\<open>case\<close> of the \<^verbatim>\<open>switch\<close> matches,
  \<^verbatim>\<open>content\<close> stays \<^verbatim>\<open>undefined\<close> and \<^verbatim>\<open>showCenterContent\<close> throws on \<^verbatim>\<open>content.length\<close>.
\<close>

definition updateCarouselContent :: "state \<Rightarrow> carousel_arg \<Rightarrow> int \<Rightarrow> outcome" where
  "updateCarouselContent st ev phase =
     (let st1 = clearHoverCycle st in
      if phase = 0 then
        (case getInitialContent ev of Inl e \<Rightarrow> Throws e st1 | Inr content \<Rightarrow> Returns st1)
      else if phase = 1 then Returns st1
      else if phase = 2 then Returns st1
      else Throws TypeError st1)"

definition openCarousel :: "state \<Rightarrow> carousel_arg \<Rightarrow> outcome" where
  "openCarousel st ev = updateCarouselContent st ev 0"

definition hideCarouselView :: "state \<Rightarrow> state" where
  "hideCarouselView st =
     clearHoverCycle (st\<lparr> clickedEvent := None, clickedEventPhase := 0 \<rparr>)"

text \<open>\<^verbatim>\<open>navigateCarousel\<close> looks the clicked event up in \<^verbatim>\<open>allVisibleEvents\<close>.\<close>

definition navigateCarousel :: "event list \<Rightarrow> state \<Rightarrow> int \<Rightarrow> outcome" where
  "navigateCarousel allVisibleEvents st direction =
     (if \<not> truthyId (clickedEvent st) then Returns st
      else
        (case find (\<lambda>e. Some (ev_id e) = clickedEvent st) allVisibleEvents of
           None \<Rightarrow> Returns st
         | Some ev \<Rightarrow>
             (let st1 = st\<lparr> clickedEventPhase := jsRem (clickedEventPhase st + direction + 3) 3 \<rparr>
              in updateCarouselContent st1 (RawEvent ev) (clickedEventPhase st1))))"

text \<open>
  The click handler of an event group in \<^verbatim>\<open>renderEvents\<close>; its \<^verbatim>\<open>ev\<close> is a label item,
  whose \<^verbatim>\<open>id\<close> is that of the event it was spread from.
\<close>

definition eventClick :: "state \<Rightarrow> label \<Rightarrow> outcome" where
  "eventClick st ev =
     (if clickedEvent st = Some (ev_id (lbl_event ev)) then Returns (hideCarouselView st)
      else openCarousel
             (st\<lparr> clickedEvent := Some (ev_id (lbl_event ev)), clickedEventPhase := 0 \<rparr>)
             (LabelItem ev))"


section \<open>Example data\<close>

text \<open>Concrete inputs for the closed statements below.\<close>

definition noOptions :: create_options where
  "noOptions = \<lparr> hasVerksamhet = None, hasEkonomi = None, hasKvalitet = None \<rparr>"

definition lineEvent :: "string \<Rightarrow> string \<Rightarrow> event" where
  "lineEvent ring ring2 =
     \<lparr> ev_id = ''ev_0'',
       ev_date = \<lparr> fullYear = 2026, month0 = 2, dayOfMonth = 15 \<rparr>,
       ev_ring = RingName ring,
       ev_ring_2 = Some (RingName ring2),
       ev_placering = ''linje'',
       ev_verksamhet = JBool True,
       ev_ekonomi = JBool False,
       ev_kvalitet = JBool False \<rparr>"

definition facetEvent :: "string \<Rightarrow> jsval \<Rightarrow> jsval \<Rightarrow> jsval \<Rightarrow> event" where
  "facetEvent i v e k =
     \<lparr> ev_id = i,
       ev_date = \<lparr> fullYear = 2026, month0 = 5, dayOfMonth = 1 \<rparr>,
       ev_ring = RingName ''planering'',
       ev_ring_2 = None,
       ev_placering = ''center'',
       ev_verksamhet = v,
       ev_ekonomi = e,
       ev_kvalitet = k \<rparr>"

definition quarterly :: "int \<Rightarrow> config" where
  "quarterly yr = \<lparr> year = yr, periodDividerWeeks = [1, 14, 27, 40] \<rparr>"

definition markerLabel :: "real \<Rightarrow> real \<Rightarrow> real \<Rightarrow> real \<Rightarrow> label" where
  "markerLabel x y a ly =
     \<lparr> lbl_event = lineEvent ''planering'' ''planering'',
       lbl_a = a,
       lbl_r = 185,
       lbl_x = x,
       lbl_y = y,
       lbl_lx = 550,
       lbl_ly = ly,
       lbl_isLeft = False,
       lbl_dateObj = \<lparr> fullYear = 2026, month0 = 2, dayOfMonth = 15 \<rparr> \<rparr>"

section \<open>Properties of the selection state\<close>

lemma toggleMember_empty: "toggleMember i {} = {i}"
  by (simp add: toggleMember_def)

lemma toggleRing_fields:
  "clickedMonths (toggleRing st i) = {}"
  "clickedPeriods (toggleRing st i) = {}"
  "clickedRings (toggleRing st i) = toggleMember i (clickedRings st)"
  "selectionMode (toggleRing st i) =
     (if toggleMember i (clickedRings st) = {} then None else Some ModeRing)"
  by (simp_all add: toggleRing_def Let_def)

lemma toggleMonth_fields:
  "clickedRings (toggleMonth st i) = {}"
  "clickedPeriods (toggleMonth st i) = {}"
  "clickedMonths (toggleMonth st i) = toggleMember i (clickedMonths st)"
  "selectionMode (toggleMonth st i) =
     (if toggleMember i (clickedMonths st) = {} then None else Some ModeMonth)"
  by (simp_all add: toggleMonth_def Let_def)

lemma togglePeriod_fields:
  "clickedMonths (togglePeriod st i) = {}"
  "clickedRings (togglePeriod st i) = {}"
  "clickedPeriods (togglePeriod st i) = toggleMember i (clickedPeriods st)"
  "selectionMode (togglePeriod st i) =
     (if toggleMember i (clickedPeriods st) = {} then None else Some ModePeriod)"
  by (simp_all add: togglePeriod_def Let_def)

lemma resetSelections_fields:
  "clickedMonths (resetSelections st) = {}"
  "clickedRings (resetSelections st) = {}"
  "clickedPeriods (resetSelections st) = {}"
  "selectionMode (resetSelections st) = None"
  by (simp_all add: resetSelections_def clearHoverCycle_def)

lemma createState_fields:
  "clickedMonths (createState opts) = {}"
  "clickedRings (createState opts) = {}"
  "clickedPeriods (createState opts) = {}"
  "selectionMode (createState opts) = None"
  by (simp_all add: createState_def)

text \<open>
  C5. A click on ring \<open>i\<close> leaves the clicked-months and clicked-periods sets empty,
  toggles \<open>i\<close> in the clicked-rings set, and leaves the mode on the ring axis unless
  the clicked-rings set is then empty, in which case the mode is \<^verbatim>\<open>null\<close>. The month
  and the period toggle do the same with the axes exchanged.
\<close>

theorem click_toggle_shape:
  "clickedMonths (toggleRing st i) = {} \<and>
   clickedPeriods (toggleRing st i) = {} \<and>
   clickedRings (toggleRing st i) =
     (if i \<in> clickedRings st then clickedRings st - {i} else insert i (clickedRings st)) \<and>
   selectionMode (toggleRing st i) =
     (if clickedRings (toggleRing st i) = {} then None else Some ModeRing) \<and>
   clickedRings (toggleMonth st i) = {} \<and>
   clickedPeriods (toggleMonth st i) = {} \<and>
   clickedMonths (toggleMonth st i) =
     (if i \<in> clickedMonths st then clickedMonths st - {i} else insert i (clickedMonths st)) \<and>
   selectionMode (toggleMonth st i) =
     (if clickedMonths (toggleMonth st i) = {} then None else Some ModeMonth) \<and>
   clickedMonths (togglePeriod st i) = {} \<and>
   clickedRings (togglePeriod st i) = {} \<and>
   clickedPeriods (togglePeriod st i) =
     (if i \<in> clickedPeriods st then clickedPeriods st - {i} else insert i (clickedPeriods st)) \<and>
   selectionMode (togglePeriod st i) =
     (if clickedPeriods (togglePeriod st i) = {} then None else Some ModePeriod)"
  by (simp only: toggleRing_fields toggleMonth_fields togglePeriod_fields toggleMember_def simp_thms)

theorem click_toggle_shape_witness:
  "clickedMonths (toggleMonth (createState \<lparr>hasVerksamhet = None, hasEkonomi = None, hasKvalitet = None\<rparr>) 3) = {3} \<and>
   clickedMonths (toggleRing (toggleMonth (createState \<lparr>hasVerksamhet = None, hasEkonomi = None, hasKvalitet = None\<rparr>) 3) 1) = {} \<and>
   clickedRings (toggleRing (toggleMonth (createState \<lparr>hasVerksamhet = None, hasEkonomi = None, hasKvalitet = None\<rparr>) 3) 1) = {1} \<and>
   selectionMode (toggleRing (toggleMonth (createState \<lparr>hasVerksamhet = None, hasEkonomi = None, hasKvalitet = None\<rparr>) 3) 1) = Some ModeRing \<and>
   selectionMode (toggleRing (toggleRing (toggleMonth (createState \<lparr>hasVerksamhet = None, hasEkonomi = None, hasKvalitet = None\<rparr>) 3) 1) 1) = None"
  using click_toggle_shape
    [of "toggleMonth (createState \<lparr>hasVerksamhet = None, hasEkonomi = None, hasKvalitet = None\<rparr>) 3" 1]
    click_toggle_shape
    [of "toggleRing (toggleMonth (createState \<lparr>hasVerksamhet = None, hasEkonomi = None, hasKvalitet = None\<rparr>) 3) 1" 1]
    click_toggle_shape
    [of "createState \<lparr>hasVerksamhet = None, hasEkonomi = None, hasKvalitet = None\<rparr>" 3]
  by (simp add: createState_fields)

lemma nonEmptyAxes_toggleRing:
  "nonEmptyAxes (toggleRing st i) = set_option (selectionMode (toggleRing st i))"
  by (simp add: nonEmptyAxes_def toggleRing_fields)

lemma nonEmptyAxes_toggleMonth:
  "nonEmptyAxes (toggleMonth st i) = set_option (selectionMode (toggleMonth st i))"
  by (simp add: nonEmptyAxes_def toggleMonth_fields)

lemma nonEmptyAxes_togglePeriod:
  "nonEmptyAxes (togglePeriod st i) = set_option (selectionMode (togglePeriod st i))"
  by (simp add: nonEmptyAxes_def togglePeriod_fields)

lemma nonEmptyAxes_resetSelections:
  "nonEmptyAxes (resetSelections st) = set_option (selectionMode (resetSelections st))"
  by (simp add: nonEmptyAxes_def resetSelections_fields)

lemma nonEmptyAxes_createState:
  "nonEmptyAxes (createState opts) = set_option (selectionMode (createState opts))"
  by (simp add: nonEmptyAxes_def createState_fields)

lemma nonEmptyAxes_applyOp:
  "nonEmptyAxes (applyOp st op) = set_option (selectionMode (applyOp st op))"
  by (cases op)
     (simp_all add: nonEmptyAxes_toggleRing nonEmptyAxes_toggleMonth
        nonEmptyAxes_togglePeriod nonEmptyAxes_resetSelections)

lemma nonEmptyAxes_runOps:
  "nonEmptyAxes (runOps (createState opts) ops) =
     set_option (selectionMode (runOps (createState opts) ops))"
proof (cases ops rule: rev_cases)
  case Nil
  then show ?thesis
    by (simp add: runOps_def nonEmptyAxes_createState)
next
  case (snoc ops' op)
  then show ?thesis
    by (simp add: runOps_def nonEmptyAxes_applyOp)
qed

lemma nonEmptyAxes_empty_iff:
  "nonEmptyAxes st = {} \<longleftrightarrow> clickedMonths st = {} \<and> clickedRings st = {} \<and> clickedPeriods st = {}"
  by (simp add: nonEmptyAxes_def)

lemma nonEmptyAxes_mem:
  "ModeMonth \<in> nonEmptyAxes st \<longleftrightarrow> clickedMonths st \<noteq> {}"
  "ModeRing \<in> nonEmptyAxes st \<longleftrightarrow> clickedRings st \<noteq> {}"
  "ModePeriod \<in> nonEmptyAxes st \<longleftrightarrow> clickedPeriods st \<noteq> {}"
  by (simp_all add: nonEmptyAxes_def)


lemma axes_of_mode:
  assumes ax: "nonEmptyAxes st = set_option (selectionMode st)"
  shows "card (nonEmptyAxes st) \<le> 1"
    and "selectionMode st = None \<longleftrightarrow>
            clickedMonths st = {} \<and> clickedRings st = {} \<and> clickedPeriods st = {}"
    and "selectionMode st = Some ModeMonth \<longleftrightarrow>
            clickedMonths st \<noteq> {} \<and> clickedRings st = {} \<and> clickedPeriods st = {}"
    and "selectionMode st = Some ModeRing \<longleftrightarrow>
            clickedMonths st = {} \<and> clickedRings st \<noteq> {} \<and> clickedPeriods st = {}"
    and "selectionMode st = Some ModePeriod \<longleftrightarrow>
            clickedMonths st = {} \<and> clickedRings st = {} \<and> clickedPeriods st \<noteq> {}"
proof -
  show "card (nonEmptyAxes st) \<le> 1"
    unfolding ax by (cases "selectionMode st") simp_all
  have m: "clickedMonths st \<noteq> {} \<longleftrightarrow> ModeMonth \<in> set_option (selectionMode st)"
    using nonEmptyAxes_mem(1) [of st] by (simp only: ax)
  have r: "clickedRings st \<noteq> {} \<longleftrightarrow> ModeRing \<in> set_option (selectionMode st)"
    using nonEmptyAxes_mem(2) [of st] by (simp only: ax)
  have p: "clickedPeriods st \<noteq> {} \<longleftrightarrow> ModePeriod \<in> set_option (selectionMode st)"
    using nonEmptyAxes_mem(3) [of st] by (simp only: ax)
  show "selectionMode st = None \<longleftrightarrow>
            clickedMonths st = {} \<and> clickedRings st = {} \<and> clickedPeriods st = {}"
  proof (cases "selectionMode st")
    case None
    with m r p show ?thesis by simp
  next
    case (Some a)
    with m r p show ?thesis by (cases a) simp_all
  qed
  show "selectionMode st = Some ModeMonth \<longleftrightarrow>
            clickedMonths st \<noteq> {} \<and> clickedRings st = {} \<and> clickedPeriods st = {}"
  proof (cases "selectionMode st")
    case None
    with m r p show ?thesis by simp
  next
    case (Some a)
    with m r p show ?thesis by (cases a) simp_all
  qed
  show "selectionMode st = Some ModeRing \<longleftrightarrow>
            clickedMonths st = {} \<and> clickedRings st \<noteq> {} \<and> clickedPeriods st = {}"
  proof (cases "selectionMode st")
    case None
    with m r p show ?thesis by simp
  next
    case (Some a)
    with m r p show ?thesis by (cases a) simp_all
  qed
  show "selectionMode st = Some ModePeriod \<longleftrightarrow>
            clickedMonths st = {} \<and> clickedRings st = {} \<and> clickedPeriods st \<noteq> {}"
  proof (cases "selectionMode st")
    case None
    with m r p show ?thesis by simp
  next
    case (Some a)
    with m r p show ?thesis by (cases a) simp_all
  qed
qed

text \<open>
  C9. After any sequence of \<^verbatim>\<open>toggleMonth\<close>, \<^verbatim>\<open>toggleRing\<close>, \<^verbatim>\<open>togglePeriod\<close> and
  \<^verbatim>\<open>resetSelections\<close> from the initial state, at most one of the three click-sets is
  non-empty, the mode is \<^verbatim>\<open>null\<close> exactly when all three are empty, and otherwise it
  names the axis of the one non-empty set.
\<close>

theorem selection_axes_exclusive:
  "card (nonEmptyAxes (runOps (createState opts) ops)) \<le> 1 \<and>
   (selectionMode (runOps (createState opts) ops) = None \<longleftrightarrow>
      clickedMonths (runOps (createState opts) ops) = {} \<and>
      clickedRings (runOps (createState opts) ops) = {} \<and>
      clickedPeriods (runOps (createState opts) ops) = {}) \<and>
   (selectionMode (runOps (createState opts) ops) = Some ModeMonth \<longleftrightarrow>
      clickedMonths (runOps (createState opts) ops) \<noteq> {} \<and>
      clickedRings (runOps (createState opts) ops) = {} \<and>
      clickedPeriods (runOps (createState opts) ops) = {}) \<and>
   (selectionMode (runOps (createState opts) ops) = Some ModeRing \<longleftrightarrow>
      clickedMonths (runOps (createState opts) ops) = {} \<and>
      clickedRings (runOps (createState opts) ops) \<noteq> {} \<and>
      clickedPeriods (runOps (createState opts) ops) = {}) \<and>
   (selectionMode (runOps (createState opts) ops) = Some ModePeriod \<longleftrightarrow>
      clickedMonths (runOps (createState opts) ops) = {} \<and>
      clickedRings (runOps (createState opts) ops) = {} \<and>
      clickedPeriods (runOps (createState opts) ops) \<noteq> {})"
  by (intro conjI axes_of_mode nonEmptyAxes_runOps)

theorem selection_axes_exclusive_witness:
  "selectionMode (runOps (createState \<lparr>hasVerksamhet = None, hasEkonomi = None, hasKvalitet = None\<rparr>)
      [ToggleMonth 3, ToggleRing 1, ToggleRing 2]) = Some ModeRing \<and>
   clickedMonths (runOps (createState \<lparr>hasVerksamhet = None, hasEkonomi = None, hasKvalitet = None\<rparr>)
      [ToggleMonth 3, ToggleRing 1, ToggleRing 2]) = {} \<and>
   clickedRings (runOps (createState \<lparr>hasVerksamhet = None, hasEkonomi = None, hasKvalitet = None\<rparr>)
      [ToggleMonth 3, ToggleRing 1, ToggleRing 2]) = {2, 1} \<and>
   card (nonEmptyAxes (runOps (createState \<lparr>hasVerksamhet = None, hasEkonomi = None, hasKvalitet = None\<rparr>)
      [ToggleMonth 3, ToggleRing 1, ToggleRing 2])) \<le> 1"
  using selection_axes_exclusive
    [of "\<lparr>hasVerksamhet = None, hasEkonomi = None, hasKvalitet = None\<rparr>"
        "[ToggleMonth 3, ToggleRing 1, ToggleRing 2]"]
  by (simp add: runOps_def toggleRing_def toggleMonth_def toggleMember_def createState_def Let_def)

section \<open>Properties of the line placement\<close>

lemma eventRadius_linje:
  "ev_placering ev = ''linje'' \<Longrightarrow>
   eventRadius ev lay = ringInner lay + of_int (finalLineIdx ev) * ringGapOf lay"
  by (simp add: eventRadius_def Let_def)

lemma ringIndex2Of_same: "ev_ring_2 ev = Some (ev_ring ev) \<Longrightarrow> ringIndex2Of ev = ringIndexOf (ev_ring ev)"
  by (cases "ev_ring ev") (simp_all add: ringIndex2Of_def ringIndexOf_def nullish_def split: option.splits)

text \<open>
  C1 (as the code has it). For an event placed on a line: when \<^verbatim>\<open>ring\<close> and \<^verbatim>\<open>ring_2\<close>
  are the same ring, or resolve to the same index, the radius is the outer edge of that
  ring, \<open>inner + (index + 1) * gap\<close>; when the two indices differ, the radius is
  \<open>inner + max * gap\<close>, the inner edge of the higher-indexed ring. So an event with both
  rings equal resolves to the radius of any event with two distinct rings whose higher
  index is one above it.
\<close>

theorem line_radius_boundary:
  assumes "ev_placering ev = ''linje''" and "ringCount lay \<noteq> 0"
  shows "(ev_ring_2 ev = Some (ev_ring ev) \<longrightarrow>
            eventRadius ev lay = ringOuterEdge lay (ringIndexOf (ev_ring ev))) \<and>
         (ringIndexOf (ev_ring ev) = ringIndex2Of ev \<longrightarrow>
            eventRadius ev lay = ringOuterEdge lay (ringIndexOf (ev_ring ev))) \<and>
         (ringIndexOf (ev_ring ev) \<noteq> ringIndex2Of ev \<longrightarrow>
            eventRadius ev lay = ringInnerEdge lay (max (ringIndexOf (ev_ring ev)) (ringIndex2Of ev))) \<and>
         (\<forall>ev'. ev_placering ev' = ''linje'' \<and>
                ringIndexOf (ev_ring ev) = ringIndex2Of ev \<and>
                ringIndexOf (ev_ring ev') \<noteq> ringIndex2Of ev' \<and>
                max (ringIndexOf (ev_ring ev')) (ringIndex2Of ev') = ringIndexOf (ev_ring ev) + 1 \<longrightarrow>
                eventRadius ev' lay = eventRadius ev lay)"
proof -
  have same: "ringIndexOf (ev_ring ev) = ringIndex2Of ev \<Longrightarrow>
      eventRadius ev lay = ringOuterEdge lay (ringIndexOf (ev_ring ev))"
    using assms(1) by (simp add: eventRadius_linje finalLineIdx_def Let_def ringOuterEdge_def)
  have diff: "\<And>e. ev_placering e = ''linje'' \<Longrightarrow> ringIndexOf (ev_ring e) \<noteq> ringIndex2Of e \<Longrightarrow>
      eventRadius e lay = ringInnerEdge lay (max (ringIndexOf (ev_ring e)) (ringIndex2Of e))"
    by (simp add: eventRadius_linje finalLineIdx_def Let_def ringInnerEdge_def)
  have edge: "\<And>i. ringInnerEdge lay (i + 1) = ringOuterEdge lay i"
    by (simp add: ringInnerEdge_def ringOuterEdge_def)
  show ?thesis
    using same diff [OF assms(1)] diff edge ringIndex2Of_same [of ev]
    by (metis (no_types, lifting))
qed

theorem line_radius_boundary_witness:
  "eventRadius (lineEvent ''planering'' ''planering'') defaultLayout = 250 \<and>
   ringOuterEdge defaultLayout 1 = 250 \<and>
   eventRadius (lineEvent ''planering'' ''genomforande_och_uppfoljning'') defaultLayout = 250 \<and>
   ringInnerEdge defaultLayout 2 = 250"
proof -
  have p: "ev_placering (lineEvent ''planering'' ''planering'') = ''linje''"
    by (simp add: lineEvent_def)
  have c: "ringCount defaultLayout \<noteq> 0"
    by (simp add: defaultLayout_def)
  have i1: "ringIndexOf (ev_ring (lineEvent ''planering'' ''planering'')) = 1"
    by (simp add: lineEvent_def ringIndexOf_def nullish_def RING_MAP_def)
  have i2: "ringIndex2Of (lineEvent ''planering'' ''planering'') = 1"
    by (simp add: lineEvent_def ringIndex2Of_def ringIndexOf_def nullish_def RING_MAP_def)
  have j0: "ev_placering (lineEvent ''planering'' ''genomforande_och_uppfoljning'') = ''linje''"
    by (simp add: lineEvent_def)
  have j1: "ringIndexOf (ev_ring (lineEvent ''planering'' ''genomforande_och_uppfoljning'')) = 1"
    by (simp add: lineEvent_def ringIndexOf_def nullish_def RING_MAP_def)
  have j2: "ringIndex2Of (lineEvent ''planering'' ''genomforande_och_uppfoljning'') = 2"
    by (simp add: lineEvent_def ringIndex2Of_def ringIndexOf_def nullish_def RING_MAP_def)
  have o: "ringOuterEdge defaultLayout 1 = 250"
    by (simp add: ringOuterEdge_def ringGapOf_def defaultLayout_def)
  have e: "ringInnerEdge defaultLayout 2 = 250"
    by (simp add: ringInnerEdge_def ringGapOf_def defaultLayout_def)
  show ?thesis
    using line_radius_boundary [OF p c] p c i1 i2 j0 j1 j2 o e
    by simp
qed

text \<open>
  C1 as stated fails: with the default layout an event on \<open>langtidsplanering\<close> and
  \<open>planering\<close> gets radius 185, not the outer edge 250 of \<open>planering\<close>, which is what an
  event with both rings \<open>planering\<close> gets.
\<close>

theorem line_radius_counterexample:
  "eventRadius (lineEvent ''langtidsplanering'' ''planering'') defaultLayout = 185 \<and>
   ringOuterEdge defaultLayout
     (max (ringIndexOf (ev_ring (lineEvent ''langtidsplanering'' ''planering'')))
          (ringIndex2Of (lineEvent ''langtidsplanering'' ''planering''))) = 250 \<and>
   eventRadius (lineEvent ''planering'' ''planering'') defaultLayout = 250 \<and>
   eventRadius (lineEvent ''planering'' ''planering'') defaultLayout \<noteq>
     eventRadius (lineEvent ''langtidsplanering'' ''planering'') defaultLayout"
  by (simp add: eventRadius_def finalLineIdx_def ringIndex2Of_def ringIndexOf_def nullish_def
        RING_MAP_def lineEvent_def ringOuterEdge_def ringGapOf_def defaultLayout_def Let_def)

section \<open>Properties of the facet filter\<close>

lemma set_getFilteredEvents:
  "set (getFilteredEvents st allEvents) = {ev \<in> set allEvents. matchesFilters (segmentFilters st) ev}"
  by (simp add: getFilteredEvents_def)

text \<open>
  C10. \<^verbatim>\<open>getFilteredEvents\<close> keeps an event exactly when one of its three facet flags
  is the boolean \<^verbatim>\<open>true\<close> and the filter of that facet is enabled; an event none of
  whose flags is \<^verbatim>\<open>true\<close> is dropped whatever the filters are.
\<close>

theorem facet_filter_keeps_iff:
  "(ev \<in> set (getFilteredEvents st allEvents) \<longleftrightarrow>
      ev \<in> set allEvents \<and>
      ((verksamhet (segmentFilters st) \<and> ev_verksamhet ev = JBool True) \<or>
       (ekonomi (segmentFilters st) \<and> ev_ekonomi ev = JBool True) \<or>
       (kvalitet (segmentFilters st) \<and> ev_kvalitet ev = JBool True))) \<and>
   (ev_verksamhet ev \<noteq> JBool True \<and> ev_ekonomi ev \<noteq> JBool True \<and> ev_kvalitet ev \<noteq> JBool True \<longrightarrow>
      ev \<notin> set (getFilteredEvents st allEvents))"
  by (simp add: set_getFilteredEvents matchesFilters_def isExactlyTrue_def Let_def)

theorem facet_filter_keeps_iff_witness:
  "getFilteredEvents (createState noOptions)
     [facetEvent ''ev_0'' (JBool False) JUndefined (JBool False),
      facetEvent ''ev_1'' (JBool False) (JBool True) JNull] =
     [facetEvent ''ev_1'' (JBool False) (JBool True) JNull] \<and>
   facetEvent ''ev_0'' (JBool False) JUndefined (JBool False) \<notin>
     set (getFilteredEvents (createState noOptions)
       [facetEvent ''ev_0'' (JBool False) JUndefined (JBool False),
        facetEvent ''ev_1'' (JBool False) (JBool True) JNull])"
  using facet_filter_keeps_iff
    [of "facetEvent ''ev_0'' (JBool False) JUndefined (JBool False)" "createState noOptions"
        "[facetEvent ''ev_0'' (JBool False) JUndefined (JBool False),
          facetEvent ''ev_1'' (JBool False) (JBool True) JNull]"]
  by (simp add: getFilteredEvents_def matchesFilters_def isExactlyTrue_def Let_def facetEvent_def
        createState_def noOptions_def nullish_def)

section \<open>Properties of the carousel\<close>

lemma find_by_id_Some:
  "ev \<in> set evs \<Longrightarrow> \<exists>e. find (\<lambda>e. Some (ev_id e) = Some (ev_id ev)) evs = Some e"
  by (cases "find (\<lambda>e. Some (ev_id e) = Some (ev_id ev)) evs") (auto simp: find_None_iff)

lemma updateCarouselContent_raw:
  "updateCarouselContent st (RawEvent ev) phase =
     (if phase = 1 \<or> phase = 2 then Returns (clearHoverCycle st)
      else Throws TypeError (clearHoverCycle st))"
  by (simp add: updateCarouselContent_def getInitialContent_def Let_def)

lemma updateCarouselContent_label:
  "updateCarouselContent st (LabelItem item) 0 = Returns (clearHoverCycle st)"
  by (simp add: updateCarouselContent_def getInitialContent_def Let_def)

lemma jsRem_step:
  "p \<in> {0, 1, 2} \<Longrightarrow> d = 1 \<or> d = - 1 \<Longrightarrow>
   jsRem (p + d + 3) 3 = (p + d + 3) mod 3 \<and> jsRem (p + d + 3) 3 \<in> {0, 1, 2}"
  by (auto simp: jsRem_def)

lemma navigateCarousel_open:
  assumes "ev \<in> set allVisibleEvents" and "ev_id ev \<noteq> []"
    and "clickedEvent st = Some (ev_id ev)"
  shows "clickedEventPhase (stateOf (navigateCarousel allVisibleEvents st d)) =
           jsRem (clickedEventPhase st + d + 3) 3"
    and "clickedEvent (stateOf (navigateCarousel allVisibleEvents st d)) = Some (ev_id ev)"
    and "hasThrown (navigateCarousel allVisibleEvents st d) \<longleftrightarrow>
           jsRem (clickedEventPhase st + d + 3) 3 \<noteq> 1 \<and>
           jsRem (clickedEventPhase st + d + 3) 3 \<noteq> 2"
proof -
  obtain e where e: "find (\<lambda>e. Some (ev_id e) = Some (ev_id ev)) allVisibleEvents = Some e"
    using find_by_id_Some [OF assms(1)] by blast
  have nav: "navigateCarousel allVisibleEvents st d =
      updateCarouselContent
        (st\<lparr> clickedEventPhase := jsRem (clickedEventPhase st + d + 3) 3 \<rparr>)
        (RawEvent e) (jsRem (clickedEventPhase st + d + 3) 3)"
    using assms(2,3) e by (simp add: navigateCarousel_def truthyId_def Let_def)
  show "clickedEventPhase (stateOf (navigateCarousel allVisibleEvents st d)) =
           jsRem (clickedEventPhase st + d + 3) 3"
    by (simp add: nav updateCarouselContent_raw clearHoverCycle_def)
  show "clickedEvent (stateOf (navigateCarousel allVisibleEvents st d)) = Some (ev_id ev)"
    using assms(3) by (simp add: nav updateCarouselContent_raw clearHoverCycle_def)
  show "hasThrown (navigateCarousel allVisibleEvents st d) \<longleftrightarrow>
           jsRem (clickedEventPhase st + d + 3) 3 \<noteq> 1 \<and>
           jsRem (clickedEventPhase st + d + 3) 3 \<noteq> 2"
    by (simp add: nav updateCarouselContent_raw)
qed

lemma navigateCarousel_lands:
  assumes "ev \<in> set allVisibleEvents" and "ev_id ev \<noteq> []"
    and "clickedEvent st = Some (ev_id ev)"
    and "clickedEventPhase st \<in> {0, 1, 2}" and "d = 1 \<or> d = - 1"
  shows "clickedEventPhase (stateOf (navigateCarousel allVisibleEvents st d)) =
           (clickedEventPhase st + d + 3) mod 3"
    and "hasThrown (navigateCarousel allVisibleEvents st d) \<longleftrightarrow>
           (clickedEventPhase st + d + 3) mod 3 = 0"
proof -
  have r: "jsRem (clickedEventPhase st + d + 3) 3 = (clickedEventPhase st + d + 3) mod 3"
      "jsRem (clickedEventPhase st + d + 3) 3 \<in> {0, 1, 2}"
    using jsRem_step [OF assms(4,5)] by blast+
  show "clickedEventPhase (stateOf (navigateCarousel allVisibleEvents st d)) =
           (clickedEventPhase st + d + 3) mod 3"
    using navigateCarousel_open(1) [OF assms(1,2,3), of d] by (simp only: r(1))
  have "hasThrown (navigateCarousel allVisibleEvents st d) \<longleftrightarrow>
           jsRem (clickedEventPhase st + d + 3) 3 \<noteq> 1 \<and>
           jsRem (clickedEventPhase st + d + 3) 3 \<noteq> 2"
    using assms(1,2,3) by (rule navigateCarousel_open(3))
  then show "hasThrown (navigateCarousel allVisibleEvents st d) \<longleftrightarrow>
           (clickedEventPhase st + d + 3) mod 3 = 0"
    using r by auto
qed

lemma eventClick_opens:
  "clickedEvent st \<noteq> Some (ev_id (lbl_event item)) \<Longrightarrow>
   eventClick st item =
     Returns (clearHoverCycle
       (st\<lparr> clickedEvent := Some (ev_id (lbl_event item)), clickedEventPhase := 0 \<rparr>))"
  by (simp add: eventClick_def openCarousel_def updateCarouselContent_label)



section \<open>Properties of the period weeks\<close>

lemma set_weeksOfPeriod:
  "set (weeksOfPeriod cfg idx) =
     {w. 1 \<le> w \<and> w \<le> activeWeeksTotalWeeks cfg \<and>
         (if periodWraps cfg idx
          then numGe w (periodStartWeek cfg idx) \<or> numLt w (periodEndWeek cfg idx)
          else numGe w (periodStartWeek cfg idx) \<and> numLt w (periodEndWeek cfg idx))}"
  by (auto simp: weeksOfPeriod_def periodWraps_def Let_def)

lemma getActiveWeeks_single:
  "getActiveWeeksFromPeriods {idx} cfg = set (weeksOfPeriod cfg idx)"
  by (simp add: getActiveWeeksFromPeriods_def)

lemma period_bounds_defined:
  assumes "idx < length (periodDividerWeeks cfg)"
  shows "periodStartWeek cfg idx = Some (periodDividerWeeks cfg ! idx)"
    and "periodEndWeek cfg idx =
           Some (periodDividerWeeks cfg ! ((idx + 1) mod length (periodDividerWeeks cfg)))"
  using assms by (auto simp: periodStartWeek_def periodEndWeek_def arrayAt_def Let_def)

lemma quarterly_period3:
  "yr \<noteq> 2026 \<Longrightarrow> getActiveWeeksFromPeriods {3} (quarterly yr) = {40..52}"
  by (auto simp: getActiveWeeks_single set_weeksOfPeriod periodWraps_def periodStartWeek_def
        periodEndWeek_def arrayAt_def optLe_def numGe_def numLt_def activeWeeksTotalWeeks_def
        quarterly_def Let_def)

text \<open>
  C2 (as the code has it). For the dividers 1, 14, 27, 40 in a year the code gives 52
  weeks, period 3 wraps and its active weeks are exactly 40 to 52: week 52 is in, week 1
  and week 14 are not. In general, for a period index inside the divider list, a week
  \<open>w\<close> between 1 and the week count is active iff \<open>w \<ge> w\<^sub>t \<or> w < w\<^sub>t\<^sub>+\<^sub>1\<close> when the period
  wraps (\<open>w\<^sub>t\<^sub>+\<^sub>1 \<le> w\<^sub>t\<close>), and iff \<open>w \<ge> w\<^sub>t \<and> w < w\<^sub>t\<^sub>+\<^sub>1\<close> otherwise.
\<close>

theorem period_week_membership:
  "(yr \<noteq> 2026 \<longrightarrow>
      getActiveWeeksFromPeriods {3} (quarterly yr) = {40..52} \<and>
      52 \<in> getActiveWeeksFromPeriods {3} (quarterly yr) \<and>
      1 \<notin> getActiveWeeksFromPeriods {3} (quarterly yr) \<and>
      14 \<notin> getActiveWeeksFromPeriods {3} (quarterly yr)) \<and>
   (idx < length (periodDividerWeeks cfg) \<longrightarrow>
      (w \<in> getActiveWeeksFromPeriods {idx} cfg \<longleftrightarrow>
         1 \<le> w \<and> w \<le> activeWeeksTotalWeeks cfg \<and>
         (if periodDividerWeeks cfg ! ((idx + 1) mod length (periodDividerWeeks cfg))
               \<le> periodDividerWeeks cfg ! idx
          then w \<ge> periodDividerWeeks cfg ! idx \<or>
               w < periodDividerWeeks cfg ! ((idx + 1) mod length (periodDividerWeeks cfg))
          else w \<ge> periodDividerWeeks cfg ! idx \<and>
               w < periodDividerWeeks cfg ! ((idx + 1) mod length (periodDividerWeeks cfg)))))"
proof -
  have a: "yr \<noteq> 2026 \<Longrightarrow>
      getActiveWeeksFromPeriods {3} (quarterly yr) = {40..52} \<and>
      52 \<in> getActiveWeeksFromPeriods {3} (quarterly yr) \<and>
      1 \<notin> getActiveWeeksFromPeriods {3} (quarterly yr) \<and>
      14 \<notin> getActiveWeeksFromPeriods {3} (quarterly yr)"
    by (simp add: quarterly_period3)
  have b: "w \<in> getActiveWeeksFromPeriods {idx} cfg \<longleftrightarrow>
         1 \<le> w \<and> w \<le> activeWeeksTotalWeeks cfg \<and>
         (if periodDividerWeeks cfg ! ((idx + 1) mod length (periodDividerWeeks cfg))
               \<le> periodDividerWeeks cfg ! idx
          then w \<ge> periodDividerWeeks cfg ! idx \<or>
               w < periodDividerWeeks cfg ! ((idx + 1) mod length (periodDividerWeeks cfg))
          else w \<ge> periodDividerWeeks cfg ! idx \<and>
               w < periodDividerWeeks cfg ! ((idx + 1) mod length (periodDividerWeeks cfg)))"
    if "idx < length (periodDividerWeeks cfg)"
    using period_bounds_defined [OF that]
    by (simp add: getActiveWeeks_single set_weeksOfPeriod periodWraps_def optLe_def numGe_def numLt_def)
  show ?thesis
    using a b by blast
qed

theorem period_week_membership_witness:
  "getActiveWeeksFromPeriods {3} (quarterly 2025) = {40..52} \<and>
   52 \<in> getActiveWeeksFromPeriods {3} (quarterly 2025) \<and>
   1 \<notin> getActiveWeeksFromPeriods {3} (quarterly 2025) \<and>
   (13 \<in> getActiveWeeksFromPeriods {0} (quarterly 2025)) \<and>
   (14 \<notin> getActiveWeeksFromPeriods {0} (quarterly 2025))"
  using period_week_membership [of 2025 0 "quarterly 2025" 13]
    period_week_membership [of 2025 0 "quarterly 2025" 14]
  by (simp add: quarterly_def activeWeeksTotalWeeks_def)

text \<open>
  C2 as stated fails: in the 52-week year 2025 period 3 of the dividers 1, 14, 27, 40
  wraps, and week 1 is not among its active weeks.
\<close>

theorem period_week_counterexample:
  "activeWeeksTotalWeeks (quarterly 2025) = 52 \<and>
   periodWraps (quarterly 2025) 3 \<and>
   1 \<notin> getActiveWeeksFromPeriods {3} (quarterly 2025)"
  by (simp add: getActiveWeeks_single set_weeksOfPeriod periodWraps_def periodStartWeek_def
        periodEndWeek_def arrayAt_def optLe_def numGe_def numLt_def activeWeeksTotalWeeks_def
        quarterly_def Let_def)

section \<open>Properties of the week count\<close>

text \<open>
  C4 (as the code has it). The week ring and the period-to-week computation use the same
  count: 53 for the year 2026 and 52 for every other year. Whenever the count is 53 the
  year does span 53 ISO weeks by the rule of the spec.
\<close>

theorem total_weeks_hard_coded:
  "weekRingTotalWeeks yr = (if yr = 2026 then 53 else 52) \<and>
   activeWeeksTotalWeeks cfg = weekRingTotalWeeks (year cfg) \<and>
   (weekRingTotalWeeks yr = 53 \<longrightarrow> spec_spans53IsoWeeks yr)"
  by (simp add: weekRingTotalWeeks_def activeWeeksTotalWeeks_def spec_spans53IsoWeeks_def
        getDay_def daysFromCivil_def Let_def)

theorem total_weeks_hard_coded_witness:
  "weekRingTotalWeeks 2026 = 53 \<and> spec_spans53IsoWeeks 2026 \<and>
   activeWeeksTotalWeeks (quarterly 2026) = 53 \<and> weekRingTotalWeeks 2027 = 52"
  using total_weeks_hard_coded [of 2026 "quarterly 2026"] total_weeks_hard_coded [of 2027]
  by (simp add: quarterly_def)

text \<open>
  C4 as stated fails: 2020 is a leap year that starts on a Wednesday, so it spans 53 ISO
  weeks, and both counts are 52 for it.
\<close>

theorem total_weeks_counterexample:
  "spec_spans53IsoWeeks 2020 \<and> isLeapYear 2020 \<and> getDay (daysFromCivil 2020 1 1) = 3 \<and>
   weekRingTotalWeeks 2020 = 52 \<and> activeWeeksTotalWeeks (quarterly 2020) = 52"
  by (simp add: weekRingTotalWeeks_def activeWeeksTotalWeeks_def spec_spans53IsoWeeks_def
        getDay_def daysFromCivil_def isLeapYear_def quarterly_def Let_def)

section \<open>Properties of the highlight projection\<close>

lemma getActiveSets_flags:
  "hasMonthActive (getActiveSets st) \<longleftrightarrow> clickedMonths st \<noteq> {} \<or> hoveredMonth st \<noteq> None"
  "hasRingActive (getActiveSets st) \<longleftrightarrow> clickedRings st \<noteq> {} \<or> hoveredRing st \<noteq> None"
  "hasPeriodActive (getActiveSets st) \<longleftrightarrow> clickedPeriods st \<noteq> {} \<or> hoveredPeriod st \<noteq> None"
  "hasAnyActive (getActiveSets st) \<longleftrightarrow>
     hasMonthActive (getActiveSets st) \<or> hasRingActive (getActiveSets st) \<or>
     hasPeriodActive (getActiveSets st)"
  by (auto simp: getActiveSets_def withHovered_def Let_def split: option.splits)

lemma ringSegment_dimmed:
  "is_dimmed (ringSegmentHighlight st m r) \<longleftrightarrow>
     hasAnyActive (getActiveSets st) \<and> \<not> is_active (ringSegmentHighlight st m r)"
  by (simp add: ringSegmentHighlight_def Let_def)

lemma ringSegment_active:
  "is_active (ringSegmentHighlight st m r) \<longleftrightarrow>
     (if hasRingActive (getActiveSets st) then r \<in> activeRings (getActiveSets st)
      else hasMonthActive (getActiveSets st) \<and> m \<in> activeMonths (getActiveSets st))"
  by (simp add: ringSegmentHighlight_def Let_def)

lemma marker_dimmed:
  "is_dimmed (markerHighlight cfg evs st mk) \<longleftrightarrow>
     hasAnyActive (getActiveSets st) \<and> \<not> is_active (markerHighlight cfg evs st mk)"
  by (simp add: markerHighlight_def Let_def)

lemma monthArc_dimmed:
  "is_dimmed (monthArcHighlight st m) \<longleftrightarrow>
     hasMonthActive (getActiveSets st) \<and> \<not> hasRingActive (getActiveSets st) \<and>
     \<not> hasPeriodActive (getActiveSets st) \<and> \<not> is_active (monthArcHighlight st m)"
  by (auto simp: monthArcHighlight_def Let_def getActiveSets_flags(4))

lemma monthLabel_dimmed:
  "is_dimmed (monthLabelHighlight st m) \<longleftrightarrow>
     hasMonthActive (getActiveSets st) \<and> \<not> hasRingActive (getActiveSets st) \<and>
     \<not> hasPeriodActive (getActiveSets st) \<and> \<not> is_active (monthLabelHighlight st m)"
  by (auto simp: monthLabelHighlight_def Let_def getActiveSets_flags(4))

lemma periodSegment_dimmed:
  "is_dimmed (periodSegmentHighlight st i) \<longleftrightarrow>
     hasPeriodActive (getActiveSets st) \<and> \<not> hasMonthActive (getActiveSets st) \<and>
     \<not> hasRingActive (getActiveSets st) \<and> \<not> is_active (periodSegmentHighlight st i)"
  by (auto simp: periodSegmentHighlight_def Let_def getActiveSets_flags(4))

lemma periodClicked_fields:
  "clickedMonths (togglePeriod (createState noOptions) 0) = {}"
  "clickedRings (togglePeriod (createState noOptions) 0) = {}"
  "clickedPeriods (togglePeriod (createState noOptions) 0) = {0}"
  "hoveredMonth (togglePeriod (createState noOptions) 0) = None"
  "hoveredRing (togglePeriod (createState noOptions) 0) = None"
  "hoveredPeriod (togglePeriod (createState noOptions) 0) = None"
  by (simp_all add: togglePeriod_def createState_def toggleMember_def Let_def)

lemma ringClicked_fields:
  "clickedMonths (toggleRing (createState noOptions) 0) = {}"
  "clickedRings (toggleRing (createState noOptions) 0) = {0}"
  "clickedPeriods (toggleRing (createState noOptions) 0) = {}"
  "hoveredMonth (toggleRing (createState noOptions) 0) = None"
  "hoveredRing (toggleRing (createState noOptions) 0) = None"
  "hoveredPeriod (toggleRing (createState noOptions) 0) = None"
  by (simp_all add: toggleRing_def createState_def toggleMember_def Let_def)

text \<open>
  C3 (as the code has it). When periods are the only active axis, no month arc and no
  month label is dimmed, while every ring segment is dimmed (none is active). In every
  state a ring segment and an event marker are dimmed iff something is active and the
  element is not; a month arc or label is dimmed iff months are the only active axis and
  it is not active; a period segment is dimmed iff periods are the only active axis and
  it is not active.
\<close>

theorem dimming_projection:
  "(clickedMonths st = {} \<and> hoveredMonth st = None \<and>
    clickedRings st = {} \<and> hoveredRing st = None \<and>
    (clickedPeriods st \<noteq> {} \<or> hoveredPeriod st \<noteq> None) \<longrightarrow>
      \<not> is_dimmed (monthArcHighlight st m) \<and>
      \<not> is_dimmed (monthLabelHighlight st m) \<and>
      \<not> is_active (ringSegmentHighlight st m r) \<and>
      is_dimmed (ringSegmentHighlight st m r)) \<and>
   (is_dimmed (ringSegmentHighlight st m r) \<longleftrightarrow>
      hasAnyActive (getActiveSets st) \<and> \<not> is_active (ringSegmentHighlight st m r)) \<and>
   (is_dimmed (markerHighlight cfg evs st mk) \<longleftrightarrow>
      hasAnyActive (getActiveSets st) \<and> \<not> is_active (markerHighlight cfg evs st mk)) \<and>
   (is_dimmed (monthArcHighlight st m) \<longleftrightarrow>
      hasMonthActive (getActiveSets st) \<and> \<not> hasRingActive (getActiveSets st) \<and>
      \<not> hasPeriodActive (getActiveSets st) \<and> \<not> is_active (monthArcHighlight st m)) \<and>
   (is_dimmed (monthLabelHighlight st m) \<longleftrightarrow>
      hasMonthActive (getActiveSets st) \<and> \<not> hasRingActive (getActiveSets st) \<and>
      \<not> hasPeriodActive (getActiveSets st) \<and> \<not> is_active (monthLabelHighlight st m)) \<and>
   (is_dimmed (periodSegmentHighlight st i) \<longleftrightarrow>
      hasPeriodActive (getActiveSets st) \<and> \<not> hasMonthActive (getActiveSets st) \<and>
      \<not> hasRingActive (getActiveSets st) \<and> \<not> is_active (periodSegmentHighlight st i)) \<and>
   (hasAnyActive (getActiveSets st) \<longleftrightarrow>
      clickedMonths st \<noteq> {} \<or> hoveredMonth st \<noteq> None \<or>
      clickedRings st \<noteq> {} \<or> hoveredRing st \<noteq> None \<or>
      clickedPeriods st \<noteq> {} \<or> hoveredPeriod st \<noteq> None)"
proof -
  have periodOnly:
    "\<not> is_dimmed (monthArcHighlight st m) \<and>
     \<not> is_dimmed (monthLabelHighlight st m) \<and>
     \<not> is_active (ringSegmentHighlight st m r) \<and>
     is_dimmed (ringSegmentHighlight st m r)"
    if "clickedMonths st = {}" "hoveredMonth st = None" "clickedRings st = {}"
       "hoveredRing st = None" "clickedPeriods st \<noteq> {} \<or> hoveredPeriod st \<noteq> None"
  proof -
    have f: "\<not> hasMonthActive (getActiveSets st)" "\<not> hasRingActive (getActiveSets st)"
        "hasPeriodActive (getActiveSets st)" "hasAnyActive (getActiveSets st)"
      using that by (simp_all add: getActiveSets_flags)
    show ?thesis
      using f by (simp add: monthArc_dimmed monthLabel_dimmed ringSegment_dimmed ringSegment_active)
  qed
  have any: "hasAnyActive (getActiveSets st) \<longleftrightarrow>
      clickedMonths st \<noteq> {} \<or> hoveredMonth st \<noteq> None \<or>
      clickedRings st \<noteq> {} \<or> hoveredRing st \<noteq> None \<or>
      clickedPeriods st \<noteq> {} \<or> hoveredPeriod st \<noteq> None"
    by (simp add: getActiveSets_flags)
  show ?thesis
    using periodOnly any ringSegment_dimmed [of st m r] marker_dimmed [of cfg evs st mk]
      monthArc_dimmed [of st m] monthLabel_dimmed [of st m] periodSegment_dimmed [of st i]
    by blast
qed

theorem dimming_projection_witness:
  "\<not> is_dimmed (monthArcHighlight (togglePeriod (createState noOptions) 0) 5) \<and>
   \<not> is_dimmed (monthLabelHighlight (togglePeriod (createState noOptions) 0) 5) \<and>
   is_dimmed (ringSegmentHighlight (togglePeriod (createState noOptions) 0) 5 2) \<and>
   is_dimmed (periodSegmentHighlight (togglePeriod (createState noOptions) 0) 1) \<and>
   \<not> is_dimmed (periodSegmentHighlight (togglePeriod (createState noOptions) 0) 0)"
  using dimming_projection [of "togglePeriod (createState noOptions) 0" 5 2 _ _ _ 1]
    dimming_projection [of "togglePeriod (createState noOptions) 0" 5 2 _ _ _ 0]
  by (simp add: periodClicked_fields getActiveSets_flags periodSegmentHighlight_def
        getActiveSets_def withHovered_def Let_def)

text \<open>
  C3 as stated fails: with period 0 clicked and nothing else active, ring segment (0, 0)
  is dimmed; and with ring 0 clicked, month arc 0 is neither active nor dimmed although
  something is active.
\<close>

theorem dimming_counterexample:
  "\<not> hasMonthActive (getActiveSets (togglePeriod (createState noOptions) 0)) \<and>
   \<not> hasRingActive (getActiveSets (togglePeriod (createState noOptions) 0)) \<and>
   hasPeriodActive (getActiveSets (togglePeriod (createState noOptions) 0)) \<and>
   is_dimmed (ringSegmentHighlight (togglePeriod (createState noOptions) 0) 0 0) \<and>
   hasAnyActive (getActiveSets (toggleRing (createState noOptions) 0)) \<and>
   \<not> is_active (monthArcHighlight (toggleRing (createState noOptions) 0) 0) \<and>
   \<not> is_dimmed (monthArcHighlight (toggleRing (createState noOptions) 0) 0)"
  by (simp add: periodClicked_fields ringClicked_fields getActiveSets_flags ringSegment_dimmed
        ringSegment_active monthArc_dimmed)
    (simp add: monthArcHighlight_def getActiveSets_def withHovered_def ringClicked_fields Let_def)

section \<open>Properties of the connector elbow\<close>

lemma normalize_zero: "normalizeUp (normalizeDown 0) = 0"
proof -
  have "normalizeDown 0 = 0"
    using normalizeDown.simps [of 0] by simp
  moreover have "normalizeUp 0 = 0"
    using normalizeUp.simps [of 0] by simp
  ultimately show ?thesis by simp
qed

lemma zero_length_a_coef:
  "lineEndX = lbl_x ev \<and> lineEndY = lbl_y ev \<longleftrightarrow> elbow_a_coef ev lineEndX lineEndY = 0"
  by (auto simp: elbow_a_coef_def Let_def sum_power2_eq_zero_iff power2_eq_square [symmetric])

lemma straightLineAngleOf_fallback:
  assumes "\<not> (elbow_discriminant ev lineEndX lineEndY lay \<ge> 0 \<and>
              elbow_a_coef ev lineEndX lineEndY \<noteq> 0)"
  shows "straightLineAngleOf ev lineEndX lineEndY lay = lbl_a ev"
  using assms
  unfolding straightLineAngleOf_def elbow_discriminant_def elbow_a_coef_def Let_def
  by (simp only: if_False)

text \<open>
  C6. When the discriminant of the circle/line quadratic is negative, or the segment
  from the marker to the label anchor has length zero, the straight-line angle is the
  marker's own angle, the interpolated elbow angle equals it whatever the curve factor
  is, and the elbow is the point of the elbow circle at that angle. The computation is a
  total function: its only loops are the two normalisations, which terminate.
\<close>

theorem elbow_degenerate_fallback:
  assumes "elbow_discriminant ev lineEndX lineEndY lay < 0 \<or>
           (lineEndX = lbl_x ev \<and> lineEndY = lbl_y ev)"
  shows "straightLineAngleOf ev lineEndX lineEndY lay = lbl_a ev \<and>
         interpolatedAngleOf ev lineEndX lineEndY lay = lbl_a ev \<and>
         calculateElbow ev lineEndX lineEndY lay =
           (connectorElbowRadius lay * cos (lbl_a ev), connectorElbowRadius lay * sin (lbl_a ev))"
proof -
  have guard: "\<not> (elbow_discriminant ev lineEndX lineEndY lay \<ge> 0 \<and>
                  elbow_a_coef ev lineEndX lineEndY \<noteq> 0)"
    using assms zero_length_a_coef [of lineEndX ev lineEndY] by auto
  have s: "straightLineAngleOf ev lineEndX lineEndY lay = lbl_a ev"
    using guard by (rule straightLineAngleOf_fallback)
  have i: "interpolatedAngleOf ev lineEndX lineEndY lay = lbl_a ev"
    by (simp add: interpolatedAngleOf_def Let_def s normalize_zero)
  show ?thesis
    using s i by (simp add: calculateElbow_def Let_def)
qed

theorem elbow_degenerate_fallback_witness:
  "elbow_discriminant (markerLabel 600 0 0 0) 600 100 defaultLayout < 0 \<and>
   calculateElbow (markerLabel 600 0 0 0) 600 100 defaultLayout = (480, 0) \<and>
   calculateElbow (markerLabel 185 0 0 0) 185 0 defaultLayout = (480, 0)"
proof -
  have d: "elbow_discriminant (markerLabel 600 0 0 0) 600 100 defaultLayout < 0"
    by (simp add: elbow_discriminant_def markerLabel_def defaultLayout_def Let_def)
  have z: "(185::real) = lbl_x (markerLabel 185 0 0 0) \<and> (0::real) = lbl_y (markerLabel 185 0 0 0)"
    by (simp add: markerLabel_def)
  show ?thesis
    using elbow_degenerate_fallback [OF disjI1, OF d] elbow_degenerate_fallback [OF disjI2, OF z, of defaultLayout] d
    by (simp add: markerLabel_def defaultLayout_def)
qed

section \<open>Properties of the label column\<close>

lemma sum_real_lessThan: "(\<Sum>i<n. real i) = real n * (real n - 1) / 2"
  by (induction n) (simp_all add: field_simps)

lemma distributeEvenly_nth:
  assumes "i < length xs"
  shows "distributeEvenly xs s ! i =
           (xs ! i)\<lparr> lbl_ly := - ((real (length xs) - 1) * s) / 2 + real i * s \<rparr>"
proof -
  have ne: "length xs \<noteq> 0"
    using assms by auto
  have "distributeEvenly xs s =
          map (\<lambda>(i, item). item\<lparr> lbl_ly := - ((real (length xs) - 1) * s) / 2 + real i * s \<rparr>)
            (enumerate 0 xs)"
    using ne by (simp add: distributeEvenly_def Let_def)
  then show ?thesis
    using assms by (simp add: nth_enumerate_eq)
qed

lemma distributeEvenly_length: "length (distributeEvenly xs s) = length xs"
  by (simp add: distributeEvenly_def Let_def)

lemma distributeEvenly_sum:
  "(\<Sum>i<length xs. lbl_ly (distributeEvenly xs s ! i)) = 0"
proof -
  define n where "n = length xs"
  define c where "c = - ((real n - 1) * s) / 2"
  have "(\<Sum>i<n. lbl_ly (distributeEvenly xs s ! i)) = (\<Sum>i<n. c + real i * s)"
    by (rule sum.cong) (simp_all add: distributeEvenly_nth n_def c_def)
  also have "\<dots> = (\<Sum>i<n. c) + (\<Sum>i<n. real i * s)"
    by (rule sum.distrib)
  also have "\<dots> = real n * c + (\<Sum>i<n. real i) * s"
    by (simp only: sum_constant card_lessThan sum_distrib_right)
  also have "\<dots> = real n * c + (real n * (real n - 1) / 2) * s"
    by (simp only: sum_real_lessThan)
  also have "\<dots> = 0"
    by (simp add: c_def field_simps)
  finally show ?thesis
    by (simp only: n_def)
qed

text \<open>
  C7. On a non-empty array of \<open>n\<close> items with spacing \<open>s\<close>, \<^verbatim>\<open>distributeEvenly\<close> keeps
  every item at its index and changes only its vertical position, to
  \<open>-(n - 1) * s / 2 + i * s\<close> for the item at index \<open>i\<close>; neighbouring positions differ
  by \<open>s\<close>, and the mean of the positions is 0.
\<close>

theorem distributeEvenly_arithmetic:
  assumes "xs \<noteq> []"
  shows "length (distributeEvenly xs s) = length xs \<and>
         (\<forall>i < length xs.
            distributeEvenly xs s ! i =
              (xs ! i)\<lparr> lbl_ly := - ((real (length xs) - 1) * s) / 2 + real i * s \<rparr>) \<and>
         (\<forall>i. Suc i < length xs \<longrightarrow>
            lbl_ly (distributeEvenly xs s ! Suc i) - lbl_ly (distributeEvenly xs s ! i) = s) \<and>
         (\<Sum>i<length xs. lbl_ly (distributeEvenly xs s ! i)) / real (length xs) = 0"
proof (intro conjI allI impI)
  show "length (distributeEvenly xs s) = length xs"
    by (rule distributeEvenly_length)
next
  fix i
  assume "i < length xs"
  then show "distributeEvenly xs s ! i =
      (xs ! i)\<lparr> lbl_ly := - ((real (length xs) - 1) * s) / 2 + real i * s \<rparr>"
    by (rule distributeEvenly_nth)
next
  fix i
  assume a: "Suc i < length xs"
  then have b: "i < length xs"
    by simp
  show "lbl_ly (distributeEvenly xs s ! Suc i) - lbl_ly (distributeEvenly xs s ! i) = s"
    by (simp add: distributeEvenly_nth [OF a] distributeEvenly_nth [OF b] algebra_simps)
next
  show "(\<Sum>i<length xs. lbl_ly (distributeEvenly xs s ! i)) / real (length xs) = 0"
    by (simp only: distributeEvenly_sum div_0)
qed

theorem distributeEvenly_arithmetic_witness:
  "map lbl_ly (distributeEvenly [markerLabel 1 0 0 7, markerLabel 2 0 0 3, markerLabel 3 0 0 9] 40)
     = [- 40, 0, 40] \<and>
   map lbl_x (distributeEvenly [markerLabel 1 0 0 7, markerLabel 2 0 0 3, markerLabel 3 0 0 9] 40)
     = [1, 2, 3]"
  using distributeEvenly_arithmetic
    [of "[markerLabel 1 0 0 7, markerLabel 2 0 0 3, markerLabel 3 0 0 9]" 40]
  by (simp add: distributeEvenly_def Let_def markerLabel_def)

end
